theory Spec2Isabelle
  imports Complex_Main "HOL-Library.Word"
begin

section \<open>Python values: exceptions, strings, slices\<close>

text \<open>
  The exception classes that the modelled code raises or lets through. The argument is
  the message. \<open>StructError\<close> is \<^verbatim>\<open>struct.error\<close>; \<open>OperationalError\<close> and
  \<open>IntegrityError\<close> are the classes of \<^verbatim>\<open>sqlite3\<close>.
\<close>

datatype exn =
    IOError string
  | KeyError string
  | ValueError string
  | IndexError string
  | AttributeError string
  | TypeError string
  | StructError string
  | RuntimeError string
  | OperationalError string
  | IntegrityError string

text \<open>
  A call either returns, raises, or does not return at all. \<open>exn + 'a\<close> is the result of
  a call that always comes back (\<open>Inl\<close> the exception raised); \<open>(exn + 'a) option\<close> adds
  \<open>None\<close> for a call that never comes back.
\<close>

type_synonym 'a outcome = "(exn + 'a) option"

definition lift :: "exn + 'a \<Rightarrow> 'a outcome" where
  "lift r = Some r"

text \<open>\<^verbatim>\<open>s[a:b]\<close> on a string or list: negative indices count from the end, both are clamped.\<close>

definition py_index :: "nat \<Rightarrow> int \<Rightarrow> nat" where
  "py_index n i = (if i < 0 then nat (int n + i) else min n (nat i))"

definition py_slice :: "'a list \<Rightarrow> int \<Rightarrow> int \<Rightarrow> 'a list" where
  "py_slice s a b = (let i = py_index (length s) a; j = py_index (length s) b
                     in take (j - i) (drop i s))"

text \<open>\<^verbatim>\<open>os.path.basename\<close>, \<^verbatim>\<open>str.strip(chars)\<close>, \<^verbatim>\<open>str.endswith\<close>, \<^verbatim>\<open>os.path.join\<close> (POSIX).\<close>

definition basename :: "string \<Rightarrow> string" where
  "basename p = rev (takeWhile (\<lambda>c. c \<noteq> CHR ''/'') (rev p))"

definition strip :: "string \<Rightarrow> string \<Rightarrow> string" where
  "strip cs s = rev (dropWhile (\<lambda>c. c \<in> set cs) (rev (dropWhile (\<lambda>c. c \<in> set cs) s)))"

definition endswith :: "string \<Rightarrow> string \<Rightarrow> bool" where
  "endswith s suffix = (length suffix \<le> length s \<and> drop (length s - length suffix) s = suffix)"

definition path_join :: "string \<Rightarrow> string \<Rightarrow> string" where
  "path_join a b =
     (if b \<noteq> [] \<and> hd b = CHR ''/'' then b
      else if a = [] \<or> endswith a ''/'' then a @ b
      else a @ ''/'' @ b)"

fun join :: "string \<Rightarrow> string list \<Rightarrow> string" where
  "join sep [] = []"
| "join sep [x] = x"
| "join sep (x # xs) = x @ sep @ join sep xs"

definition whitespace :: string where
  "whitespace = [CHR '' '', CHR 0x09, CHR 0x0A, CHR 0x0D, CHR 0x0C, CHR 0x0B]"

definition digits :: string where
  "digits = ''0123456789''"

definition upper :: string where
  "upper = ''ABCDEFGHIJKLMNOPQRSTUVWXYZ''"

definition lower :: string where
  "lower = ''abcdefghijklmnopqrstuvwxyz''"

definition to_lower :: "char \<Rightarrow> char" where
  "to_lower c = (case map_of (zip upper lower) c of Some l \<Rightarrow> l | None \<Rightarrow> c)"

definition to_upper :: "char \<Rightarrow> char" where
  "to_upper c = (case map_of (zip lower upper) c of Some u \<Rightarrow> u | None \<Rightarrow> c)"

text \<open>
  \<^verbatim>\<open>int(s)\<close> for a string: surrounding whitespace is dropped, one sign is allowed, the
  rest must be one or more decimal digits; anything else is a \<^verbatim>\<open>ValueError\<close>.
\<close>

definition digit_val :: "char \<Rightarrow> nat" where
  "digit_val c = of_char c - 48"

definition nat_of_digits :: "string \<Rightarrow> nat" where
  "nat_of_digits s = foldl (\<lambda>acc c. 10 * acc + digit_val c) 0 s"

definition py_int :: "string \<Rightarrow> exn + int" where
  "py_int s =
     (let t = strip whitespace s;
          (neg, d) = (case t of [] \<Rightarrow> (False, [])
                      | c # cs \<Rightarrow> if c = CHR ''-'' then (True, cs)
                                 else if c = CHR ''+'' then (False, cs) else (False, t))
      in if d \<noteq> [] \<and> (\<forall>c \<in> set d. c \<in> set digits)
         then Inr (if neg then - int (nat_of_digits d) else int (nat_of_digits d))
         else Inl (ValueError (''invalid literal for int() with base 10: '' @ s)))"

text \<open>Decimal digits of a natural number, and the zero-padded two-digit form of C's \<^verbatim>\<open>%02d\<close>.\<close>

definition digit_char :: "nat \<Rightarrow> char" where
  "digit_char d = char_of (48 + d)"

fun dec :: "nat \<Rightarrow> string" where
  "dec n = (if n < 10 then [digit_char n] else dec (n div 10) @ [digit_char (n mod 10)])"

definition pad2 :: "nat \<Rightarrow> string" where
  "pad2 n = (if n < 10 then CHR ''0'' # dec n else dec n)"

text \<open>
  \<^verbatim>\<open>struct.unpack('>i', s)[0]\<close>: a big-endian signed 32-bit integer from exactly four
  bytes; any other length is a \<^verbatim>\<open>struct.error\<close>.
\<close>

definition be_word32 :: "string \<Rightarrow> 32 word" where
  "be_word32 s = foldl (\<lambda>acc c. push_bit 8 acc + of_nat (of_char c)) 0 s"

definition struct_unpack_i :: "string \<Rightarrow> exn + int" where
  "struct_unpack_i s =
     (if length s = 4 then Inr (sint (be_word32 s))
      else Inl (StructError ''unpack requires a string argument of length 4''))"

section \<open>Regular expressions (the part of \<^verbatim>\<open>re\<close> that the patterns use)\<close>

text \<open>
  A backtracking matcher in the order of Python's: alternatives left to right,
  repetitions greedy. \<open>Bol\<close> is \<^verbatim>\<open>^\<close>, \<open>Eol\<close> is \<^verbatim>\<open>$\<close> (end of string, or before a
  final newline), \<open>Cls\<close> is \<^verbatim>\<open>[...]\<close>, \<open>NCls\<close> is \<^verbatim>\<open>[^...]\<close>, \<open>Rep lo hi r\<close> is
  \<^verbatim>\<open>r{lo,hi}\<close> (no upper bound when \<open>hi\<close> is \<open>None\<close>), \<open>Grp name r\<close> is
  \<^verbatim>\<open>(?P<name>r)\<close>. A matcher state is the groups captured so far (latest first),
  the position in the string and the rest of the string.
\<close>

datatype rx =
    Eps
  | Lit char
  | Cls "char list"
  | NCls "char list"
  | Bol
  | Eol
  | Seq rx rx
  | Alt rx rx
  | Rep nat "nat option" rx
  | Grp string rx

type_synonym mstate = "(string \<times> string) list \<times> nat \<times> string"

fun rep_n :: "(mstate \<Rightarrow> mstate list) \<Rightarrow> nat \<Rightarrow> nat \<Rightarrow> mstate \<Rightarrow> mstate list" where
  "rep_n f lo 0 st = (if lo = 0 then [st] else [])"
| "rep_n f lo (Suc h) st =
     concat (map (rep_n f (lo - 1) h) (f st)) @ (if lo = 0 then [st] else [])"

primrec rmatch :: "rx \<Rightarrow> mstate \<Rightarrow> mstate list" where
  "rmatch Eps = (\<lambda>st. [st])"
| "rmatch (Lit c) = (\<lambda>(cs, n, s).
     case s of [] \<Rightarrow> [] | x # xs \<Rightarrow> if x = c then [(cs, Suc n, xs)] else [])"
| "rmatch (Cls m) = (\<lambda>(cs, n, s).
     case s of [] \<Rightarrow> [] | x # xs \<Rightarrow> if x \<in> set m then [(cs, Suc n, xs)] else [])"
| "rmatch (NCls m) = (\<lambda>(cs, n, s).
     case s of [] \<Rightarrow> [] | x # xs \<Rightarrow> if x \<notin> set m then [(cs, Suc n, xs)] else [])"
| "rmatch Bol = (\<lambda>(cs, n, s). if n = 0 then [(cs, n, s)] else [])"
| "rmatch Eol = (\<lambda>(cs, n, s). if s = [] \<or> s = [CHR 0x0A] then [(cs, n, s)] else [])"
| "rmatch (Seq a b) = (\<lambda>st. concat (map (rmatch b) (rmatch a st)))"
| "rmatch (Alt a b) = (\<lambda>st. rmatch a st @ rmatch b st)"
| "rmatch (Rep lo hi r) = (\<lambda>(cs, n, s).
     rep_n (rmatch r) lo (case hi of Some h \<Rightarrow> h | None \<Rightarrow> lo + length s) (cs, n, s))"
| "rmatch (Grp name r) = (\<lambda>(cs, n, s).
     map (\<lambda>(cs', n', s'). ((name, take (n' - n) s) # cs', n', s')) (rmatch r (cs, n, s)))"

text \<open>
  A match object is the captured groups and the end position. \<^verbatim>\<open>re.match\<close> tries the
  start of the string only, \<^verbatim>\<open>re.search\<close> every position from the left.
  \<^verbatim>\<open>m.group(name)\<close> is the text of the group, \<open>None\<close> when it took no part in the match.
\<close>

type_synonym match = "(string \<times> string) list \<times> nat"

definition re_match :: "rx \<Rightarrow> string \<Rightarrow> match option" where
  "re_match r s = (case rmatch r ([], 0, s) of [] \<Rightarrow> None | (cs, n, _) # _ \<Rightarrow> Some (cs, n))"

fun search_from :: "rx \<Rightarrow> nat \<Rightarrow> string \<Rightarrow> match option" where
  "search_from r i s =
     (case rmatch r ([], i, s) of
        (cs, n, _) # _ \<Rightarrow> Some (cs, n)
      | [] \<Rightarrow> (case s of [] \<Rightarrow> None | _ # xs \<Rightarrow> search_from r (Suc i) xs))"

definition re_search :: "rx \<Rightarrow> string \<Rightarrow> match option" where
  "re_search r s = search_from r 0 s"

definition group :: "match \<Rightarrow> string \<Rightarrow> string option" where
  "group m name = map_of (fst m) name"

text \<open>Shorthands for writing a pattern down in the order of its source text.\<close>

definition seqs :: "rx list \<Rightarrow> rx" where
  "seqs rs = foldr Seq rs Eps"

fun alts :: "rx list \<Rightarrow> rx" where
  "alts [] = Cls []"
| "alts [r] = r"
| "alts (r # rs) = Alt r (alts rs)"

definition lits :: "string \<Rightarrow> rx" where
  "lits s = seqs (map Lit s)"

definition one_of :: "string list \<Rightarrow> rx" where
  "one_of ws = alts (map lits ws)"

definition exactly :: "nat \<Rightarrow> rx \<Rightarrow> rx" where
  "exactly n r = Rep n (Some n) r"

definition digit :: rx where
  "digit = Cls digits"

section \<open>The file names of the five formats\<close>

text \<open>
  The patterns of the handler classes, group by group as in the source. A class such as
  \<^verbatim>\<open>[0-9A-Z]\<close> is written with its members spelled out.
\<close>

definition image_mode_rx :: rx where
  "image_mode_rx = alts [
     Seq (lits ''IM'') (one_of [''S'', ''P'', ''G'', ''M'', ''_'']),
     Seq (lits ''AP'') (one_of [''S'', ''P'', ''G'', ''M'', ''_'']),
     Seq (lits ''WV'') (one_of [''I'', ''S'', ''W'', ''_'']),
     Seq (lits ''WS'') (one_of [''M'', ''S'', ''_''])]"

definition product_id_rx :: rx where
  "product_id_rx = seqs [
     one_of [''SAR'', ''ASA''], Lit CHR ''_'',
     image_mode_rx, Lit CHR ''_'',
     Cls ''012B'', Cls ''CP'']"

definition ESA_name_rx :: "string list \<Rightarrow> rx" where
  "ESA_name_rx extensions = seqs [
     Grp ''product_id'' product_id_rx,
     Grp ''processing_stage_flag'' (Cls upper),
     Grp ''originator_ID'' (exactly 3 (Cls (upper @ ''-''))),
     Grp ''start_day'' (exactly 8 digit), Lit CHR ''_'',
     Grp ''start_time'' (exactly 6 digit), Lit CHR ''_'',
     Grp ''duration'' (exactly 8 digit),
     Grp ''phase'' (exactly 1 (Cls (digits @ upper))),
     Grp ''cycle'' (exactly 3 digit), Lit CHR ''_'',
     Grp ''relative_orbit'' (exactly 5 digit), Lit CHR ''_'',
     Grp ''absolute_orbit'' (exactly 5 digit), Lit CHR ''_'',
     Grp ''counter'' (Rep 4 None digit), Lit CHR ''.'',
     Grp ''satellite_ID'' (Seq (Cls ''EN'') (Cls ''12'')),
     Grp ''extension'' (one_of extensions),
     Eol]"

definition CEOS_ERS_pattern :: rx where
  "CEOS_ERS_pattern = ESA_name_rx [''.zip'', ''.tar.gz'', ''.PS'', []]"

definition ESA_pattern :: rx where
  "ESA_pattern = ESA_name_rx [''.zip'', ''.tar.gz'', []]"

definition pattern_pid :: rx where
  "pattern_pid = seqs [
     Grp ''sat_id'' (one_of [''SAR'', ''ASA'']), Lit CHR ''_'',
     Grp ''image_mode'' image_mode_rx, Lit CHR ''_'',
     Grp ''processing_level'' (Seq (Cls ''012B'') (Cls ''CP''))]"

definition CEOS_PSR_patterns :: "rx list" where
  "CEOS_PSR_patterns = [
     seqs [Bol, lits ''LED-ALPSR'',
       Grp ''sub'' (one_of [''P'', ''S'']),
       Grp ''orbit'' (exactly 5 digit),
       Grp ''frame'' (exactly 4 digit), Lit CHR ''-'',
       Grp ''mode'' (Cls ''HWDPC''),
       Grp ''level'' (seqs [Lit CHR ''1'', Lit CHR ''.'', Cls ''015'']),
       Grp ''proc'' (one_of [''G'', ''_'']),
       Grp ''proj'' (Cls ''UPML_''),
       Grp ''orbit_dir'' (one_of [''A'', ''D'']),
       Eol],
     seqs [Bol, lits ''LED-ALOS2'',
       Grp ''orbit'' (exactly 5 digit),
       Grp ''frame'' (exactly 4 digit), Lit CHR ''-'',
       Grp ''date'' (exactly 6 digit), Lit CHR ''-'',
       Grp ''mode'' (one_of [''SBS'', ''UBS'', ''UBD'', ''HBS'', ''HBD'', ''HBQ'', ''FBS'',
                             ''FBD'', ''FBQ'', ''WBS'', ''WBD'', ''WWS'', ''WWD'', ''VBS'', ''VBD'']),
       Grp ''look_dir'' (one_of [''L'', ''R'']),
       Grp ''level'' (one_of [''1.0'', ''1.1'', ''1.5'', ''2.1'', ''3.1'']),
       Grp ''proc'' (Cls ''GR_''),
       Grp ''proj'' (Cls ''UPML_''),
       Grp ''orbit_dir'' (one_of [''A'', ''D'']),
       Eol]]"

definition timestamp_rx :: "char \<Rightarrow> rx" where
  "timestamp_rx t = seqs [exactly 8 digit, Lit t, exactly 6 digit]"

definition SAFE_pattern :: rx where
  "SAFE_pattern = seqs [Bol,
     Grp ''sensor'' (seqs [Lit CHR ''S'', Lit CHR ''1'', Cls ''AB'']), Lit CHR ''_'',
     Grp ''beam'' (one_of [''S1'', ''S2'', ''S3'', ''S4'', ''S5'', ''S6'', ''IW'', ''EW'', ''WV'',
                           ''EN'', ''N1'', ''N2'', ''N3'', ''N4'', ''N5'', ''N6'', ''IM'']),
     Lit CHR ''_'',
     Grp ''product'' (one_of [''SLC'', ''GRD'', ''OCN'']),
     one_of [''F'', ''H'', ''M'', ''_''], Lit CHR ''_'',
     one_of [''1'', ''2''],
     Grp ''category'' (one_of [''S'', ''A'']),
     Grp ''pols'' (one_of [''SH'', ''SV'', ''DH'', ''DV'', ''VV'', ''HH'', ''HV'', ''VH'']),
     Lit CHR ''_'',
     Grp ''start'' (timestamp_rx CHR ''T''), Lit CHR ''_'',
     Grp ''stop'' (timestamp_rx CHR ''T''), Lit CHR ''_'',
     Grp ''orbitNumber'' (exactly 6 digit), Lit CHR ''_'',
     Grp ''dataTakeID'' (exactly 6 (Cls (digits @ ''ABCDEF''))), Lit CHR ''_'',
     Grp ''productIdentifier'' (exactly 4 (Cls (digits @ ''ABCDEF''))),
     lits ''.SAFE'', Eol]"

definition TSX_pattern :: rx where
  "TSX_pattern = seqs [Bol,
     Grp ''sat'' (seqs [Lit CHR ''T'', Cls ''DS'', Lit CHR ''X'', Lit CHR ''1'']),
     lits ''_SAR__'',
     Grp ''prod'' (one_of [''SSC'', ''MGD'', ''GEC'', ''EEC'']), Lit CHR ''_'',
     Grp ''var'' (one_of [''____'', ''SE__'', ''RE__'', ''MON1'', ''MON2'', ''BTX1'', ''BRX2'']),
     Lit CHR ''_'',
     Grp ''mode'' (one_of [''SM'', ''SL'', ''HS'', ''HS300'', ''ST'', ''SC'']), Lit CHR ''_'',
     Grp ''pols'' (Cls ''SDTQ''), Lit CHR ''_'',
     one_of [''SRA'', ''DRA''], Lit CHR ''_'',
     Grp ''start'' (timestamp_rx CHR ''T''), Lit CHR ''_'',
     Grp ''stop'' (timestamp_rx CHR ''T''),
     one_of [''.xml'', []],
     Eol]"

section \<open>The scene record and what lies outside the program\<close>

text \<open>
  \<open>metadict\<close> holds the entries of \<^verbatim>\<open>__LOCAL__\<close> that \<^verbatim>\<open>ID.__init__\<close> copies from the
  metadata dictionary onto the object; \<open>ID\<close> adds the two attributes every handler sets
  itself, the archive path \<^verbatim>\<open>scene\<close> and the representative \<^verbatim>\<open>file\<close> (here \<open>file'\<close>).
\<close>

record metadict =
  sensor :: string
  projection :: string
  orbit :: string
  polarizations :: "string list"
  acquisition_mode :: string
  start :: string
  stop :: string
  product :: string
  spacing :: "real \<times> real"
  samples :: int
  lines :: int

record ID = metadict +
  scene :: string
  file' :: string

definition ID_init :: "string \<Rightarrow> string \<Rightarrow> metadict \<Rightarrow> ID" where
  "ID_init scene_path file_path m =
     \<lparr>sensor = sensor m, projection = projection m, orbit = orbit m,
      polarizations = polarizations m, acquisition_mode = acquisition_mode m,
      start = start m, stop = stop m, product = product m, spacing = spacing m,
      samples = samples m, lines = lines m, scene = scene_path, file' = file_path\<rparr>"

text \<open>
  What a path names on disk, as far as \<^verbatim>\<open>findfiles\<close> tells the cases apart: a
  directory, a zip archive with its member names, a tar archive with its member names and
  whether each is a directory, any other file, or nothing.
\<close>

datatype fs_entry =
    Directory
  | ZipFile "string list"
  | TarFile "(string \<times> bool) list"
  | RegularFile
  | NoSuchFile

text \<open>
  The collaborators of the program. \<open>finder\<close> is \<^verbatim>\<open>ancillary.finder(target, [pattern],
  regex=True, foldermode=n)\<close>; \<open>open_read\<close>, \<open>zip_read\<close> and \<open>tar_read\<close> give the bytes of
  a file or archive member; \<open>gdal_open\<close> is the metadata dictionary that \<^verbatim>\<open>gdalinfo\<close> builds
  from the opened header; \<open>ERS_fields\<close> and \<open>ESA_fields\<close> (from that dictionary, the
  image mode, the scene and the file), \<open>manifest_SAFE\<close> and \<open>annotation_TSX\<close> (from the
  scene and the file) stand for the rest of the four constructors: the derived fields, the
  leader or XML file, and the lookup of the canonical keys; \<open>parseSummary\<close>,
  \<open>map_projection\<close> and \<open>PSR_fields\<close> are the parts of \<^verbatim>\<open>CEOS_PSR.scanMetadata\<close> that
  read the summary file, build the coordinate reference system and convert the
  floating-point fields. \<open>bbox_wkt\<close> is \<^verbatim>\<open>id.bbox().convert2wkt(set3D=False)[0]\<close>,
  \<open>st_intersects\<close> the spatial predicate of the database and \<open>processed\<close> is
  \<^verbatim>\<open>finder(processdir, [outname], regex=True, recursive=r)\<close>.
\<close>

record world =
  realpath :: "string \<Rightarrow> string"
  fs :: "string \<Rightarrow> fs_entry"
  finder :: "string \<Rightarrow> rx \<Rightarrow> nat \<Rightarrow> string list"
  open_read :: "string \<Rightarrow> exn + string"
  zip_read :: "string \<Rightarrow> string \<Rightarrow> exn + string"
  tar_read :: "string \<Rightarrow> string \<Rightarrow> exn + string"
  gdal_open :: "string \<Rightarrow> exn + (string \<times> string) list"
  ERS_fields :: "(string \<times> string) list \<Rightarrow> string \<Rightarrow> string \<Rightarrow> string \<Rightarrow> exn + metadict"
  ESA_fields :: "(string \<times> string) list \<Rightarrow> string \<Rightarrow> string \<Rightarrow> string \<Rightarrow> exn + metadict"
  manifest_SAFE :: "string \<Rightarrow> string \<Rightarrow> exn + metadict"
  annotation_TSX :: "string \<Rightarrow> string \<Rightarrow> exn + metadict"
  parseSummary :: "string \<Rightarrow> exn + (string \<times> string) list"
  map_projection :: "string \<Rightarrow> exn + string"
  PSR_fields :: "string \<Rightarrow> (string \<times> string) list \<Rightarrow> string \<Rightarrow> string \<Rightarrow> string
                 \<Rightarrow> string \<Rightarrow> string \<Rightarrow> exn + metadict"
  bbox_wkt :: "ID \<Rightarrow> exn + string"
  st_intersects :: "string \<Rightarrow> string \<Rightarrow> bool"
  processed :: "string \<Rightarrow> string \<Rightarrow> bool \<Rightarrow> string list"

section \<open>The handler base class \<^verbatim>\<open>ID\<close>\<close>

text \<open>
  \<^verbatim>\<open>ID.findfiles\<close>. \<^verbatim>\<open>tarfile.is_tarfile\<close> opens the path, so a path that names nothing
  ends in an \<^verbatim>\<open>IOError\<close>; \<^verbatim>\<open>os.path.isdir\<close> and \<^verbatim>\<open>zipfile.is_zipfile\<close> answer no.
\<close>

definition isdir_member :: "(string \<times> bool) list \<Rightarrow> string \<Rightarrow> bool" where
  "isdir_member members x = (case map_of (rev members) x of Some d \<Rightarrow> d | None \<Rightarrow> False)"

definition findfiles :: "world \<Rightarrow> string \<Rightarrow> rx \<Rightarrow> bool \<Rightarrow> exn + string list" where
  "findfiles w scene_path pattern include_folders =
     (case fs w scene_path of
        Directory \<Rightarrow>
          Inr (finder w scene_path pattern (if include_folders then 1 else 0)
               @ (if re_search pattern (basename scene_path) \<noteq> None \<and> include_folders
                  then [scene_path] else []))
      | ZipFile namelist \<Rightarrow>
          (let files = map (path_join scene_path)
                 (filter (\<lambda>x. re_search pattern (basename (strip ''/'' x)) \<noteq> None) namelist)
           in Inr (if include_folders then map (strip ''/'') files
                   else filter (\<lambda>x. \<not> endswith x ''/'') files))
      | TarFile members \<Rightarrow>
          (let files = filter (\<lambda>x. re_search pattern (basename (strip ''/'' x)) \<noteq> None)
                 (map fst members);
               files = (if \<not> include_folders then filter (\<lambda>x. \<not> isdir_member members x) files
                        else files)
           in Inr (map (path_join scene_path) files))
      | RegularFile \<Rightarrow> Inr (if re_search pattern scene_path \<noteq> None then [scene_path] else [])
      | NoSuchFile \<Rightarrow> Inl (IOError ''No such file or directory''))"

text \<open>
  \<^verbatim>\<open>ID.examine\<close>: the representative file, which the source stores in \<^verbatim>\<open>self.file\<close>.
  \<open>cls\<close> is \<^verbatim>\<open>type(self).__name__\<close>.
\<close>

definition examine :: "world \<Rightarrow> string \<Rightarrow> string \<Rightarrow> rx \<Rightarrow> bool \<Rightarrow> exn + string" where
  "examine w cls scene_path pattern include_folders =
     (case findfiles w scene_path pattern include_folders of
        Inl e \<Rightarrow> Inl e
      | Inr files \<Rightarrow>
          if length files = 1 then Inr (files ! 0)
          else if length files = 0
          then Inl (IOError (''scene does not match '' @ cls @ '' naming convention''))
          else Inl (IOError (''file ambiguity detected:'' @ [CHR 0x0A] @ join [CHR 0x0A] files)))"

text \<open>
  \<^verbatim>\<open>ID.getFileObj\<close> followed by \<^verbatim>\<open>read()\<close>. For a tar archive the source writes the member
  into a \<^verbatim>\<open>StringIO\<close> and does not rewind it, so the read that follows starts at the end
  and returns the empty string. The member name handed to the archive readers is the
  file name with the scene path removed.
\<close>

definition getFileObj :: "world \<Rightarrow> string \<Rightarrow> string \<Rightarrow> exn + string" where
  "getFileObj w scene_path filename =
     (case fs w scene_path of
        Directory \<Rightarrow> open_read w filename
      | ZipFile _ \<Rightarrow> zip_read w scene_path filename
      | TarFile _ \<Rightarrow> (case tar_read w scene_path filename of Inl e \<Rightarrow> Inl e | Inr _ \<Rightarrow> Inr [])
      | RegularFile \<Rightarrow>
          Inl (IOError ''input must be either a file name or a location in an zip or tar archive'')
      | NoSuchFile \<Rightarrow> Inl (IOError ''No such file or directory''))"

text \<open>\<^verbatim>\<open>ID.outname_base\<close>; \<open>ljust4\<close> is the format \<^verbatim>\<open>'{:_<4}'\<close>.\<close>

definition ljust4 :: "string \<Rightarrow> string" where
  "ljust4 s = s @ replicate (4 - length s) CHR ''_''"

definition outname_base :: "'a ID_scheme \<Rightarrow> string" where
  "outname_base self =
     (let fields = [ljust4 (sensor self), ljust4 (acquisition_mode self), orbit self, start self]
      in join ''_'' fields)"

section \<open>The handlers\<close>

text \<open>
  Each constructor up to the point where it hands over to GDAL or to the XML reader.
  \<^verbatim>\<open>match.group\<close> on a failed \<^verbatim>\<open>re.match\<close> is an \<^verbatim>\<open>AttributeError\<close>.
\<close>

definition no_group :: exn where
  "no_group = AttributeError ''NoneType object has no attribute group''"

definition level0 :: exn where
  "level0 = IOError ''product level 0 not supported (yet)''"

definition gdalinfo_pattern :: rx where
  "gdalinfo_pattern = alts [
     seqs [Lit CHR ''.'', Cls ''NE'', Cls ''12'', Eol],
     seqs [lits ''DAT_01.001'', Eol],
     lits ''product.xml'',
     seqs [lits ''manifest.safe'', Eol]]"

definition gdalinfo :: "world \<Rightarrow> string \<Rightarrow> exn + (string \<times> string) list" where
  "gdalinfo w scene0 =
     (let scene_path = realpath w scene0 in
      case findfiles w scene_path gdalinfo_pattern False of
        Inl e \<Rightarrow> Inl e
      | Inr files \<Rightarrow>
          if length files = 1 then
            (let prefix = (case fs w scene_path of ZipFile _ \<Rightarrow> ''/vsizip/''
                           | TarFile _ \<Rightarrow> ''/vsitar/'' | _ \<Rightarrow> []);
                 header = files ! 0
             in gdal_open w (prefix @ header))
          else if length files > 1 then Inl (IOError ''file ambiguity detected'')
          else Inl (IOError ''file type not supported''))"

definition ESA_family ::
  "string \<Rightarrow> rx \<Rightarrow> ((string \<times> string) list \<Rightarrow> string \<Rightarrow> string \<Rightarrow> string \<Rightarrow> exn + metadict)
   \<Rightarrow> world \<Rightarrow> string \<Rightarrow> exn + ID" where
  "ESA_family cls pattern derive w scene0 =
     (let scene_path = realpath w scene0 in
      case examine w cls scene_path pattern False of
        Inl e \<Rightarrow> Inl e
      | Inr file_path \<Rightarrow>
         (case re_match pattern (basename file_path) of
            None \<Rightarrow> Inl no_group
          | Some match \<Rightarrow>
             (case group match ''product_id'' of
                None \<Rightarrow> Inl (TypeError ''expected string or buffer'')
              | Some product_id \<Rightarrow>
                 (let match2 = re_match pattern_pid product_id in
                  if re_search (lits ''IM__0'') product_id \<noteq> None then Inl level0
                  else (case gdalinfo w scene_path of
                          Inl e \<Rightarrow> Inl e
                        | Inr gdalmeta \<Rightarrow>
                           (case match2 of
                              None \<Rightarrow> Inl no_group
                            | Some m2 \<Rightarrow>
                               (case group m2 ''image_mode'' of
                                  None \<Rightarrow> Inl (KeyError ''acquisition_mode'')
                                | Some image_mode \<Rightarrow>
                                   (case derive gdalmeta image_mode scene_path file_path of
                                      Inl e \<Rightarrow> Inl e
                                    | Inr meta \<Rightarrow> Inr (ID_init scene_path file_path meta)))))))))"

definition CEOS_ERS :: "world \<Rightarrow> string \<Rightarrow> exn + ID" where
  "CEOS_ERS w = ESA_family ''CEOS_ERS'' CEOS_ERS_pattern (ERS_fields w) w"

definition ESA :: "world \<Rightarrow> string \<Rightarrow> exn + ID" where
  "ESA w = ESA_family ''ESA'' ESA_pattern (ESA_fields w) w"

definition XML_family ::
  "string \<Rightarrow> rx \<Rightarrow> bool \<Rightarrow> string \<Rightarrow> (string \<Rightarrow> string \<Rightarrow> exn + metadict) \<Rightarrow> world \<Rightarrow> string
   \<Rightarrow> exn + ID" where
  "XML_family cls pattern include_folders mismatch scan w scene0 =
     (let scene_path = realpath w scene0 in
      case examine w cls scene_path pattern include_folders of
        Inl e \<Rightarrow> Inl e
      | Inr file_path \<Rightarrow>
          if re_match pattern (basename file_path) = None then Inl (IOError mismatch)
          else (case scan scene_path file_path of
                  Inl e \<Rightarrow> Inl e
                | Inr meta \<Rightarrow> Inr (ID_init scene_path file_path meta)))"

definition SAFE :: "world \<Rightarrow> string \<Rightarrow> exn + ID" where
  "SAFE w = XML_family ''SAFE'' SAFE_pattern True
              ''folder does not match S1 scene naming convention'' (manifest_SAFE w) w"

definition TSX :: "world \<Rightarrow> string \<Rightarrow> exn + ID" where
  "TSX w = XML_family ''TSX'' TSX_pattern False
             ''folder does not match TSX scene naming convention'' (annotation_TSX w) w"

text \<open>
  \<^verbatim>\<open>CEOS_PSR.__init__\<close> tries its two patterns in turn: an \<^verbatim>\<open>IOError\<close> of \<^verbatim>\<open>examine\<close> is
  raised again only for the last pattern.
\<close>

fun PSR_examine :: "world \<Rightarrow> string \<Rightarrow> rx list \<Rightarrow> exn + rx \<times> string" where
  "PSR_examine w scene_path [] = Inl (AttributeError ''CEOS_PSR object has no attribute pattern'')"
| "PSR_examine w scene_path (pattern # rest) =
     (case examine w ''CEOS_PSR'' scene_path pattern False of
        Inr file_path \<Rightarrow> Inr (pattern, file_path)
      | Inl e \<Rightarrow>
         (case e of
            IOError _ \<Rightarrow> if rest = [] then Inl e else PSR_examine w scene_path rest
          | _ \<Rightarrow> Inl e))"

text \<open>
  \<^verbatim>\<open>CEOS_PSR.scanMetadata\<close>, the records of the leader file. The first record gives its own
  length at bytes 8 to 12 and, as six-digit decimal fields, the number and the length of
  the records of each following group.
\<close>

fun sequence :: "(exn + 'a) list \<Rightarrow> exn + 'a list" where
  "sequence [] = Inr []"
| "sequence (x # xs) =
     (case x of
        Inl e \<Rightarrow> Inl e
      | Inr v \<Rightarrow> (case sequence xs of Inl e \<Rightarrow> Inl e | Inr vs \<Rightarrow> Inr (v # vs)))"

definition WGS84 :: string where
  \<open>WGS84 = ''GEOGCS["WGS 84",''
     @ ''DATUM["WGS_1984",SPHEROID["WGS 84",6378137,298.257223563,AUTHORITY["EPSG","7030"]],AUTHORITY["EPSG","6326"]],''
     @ ''PRIMEM["Greenwich",0,AUTHORITY["EPSG","8901"]],''
     @ ''UNIT["degree",0.01745329251994328,AUTHORITY["EPSG","9122"]],''
     @ ''AUTHORITY["EPSG","4326"]]''\<close>

definition PSR_sensor :: "string \<Rightarrow> exn + string" where
  "PSR_sensor key =
     (if key = ''AL1'' then Inr ''PSR1'' else if key = ''AL2'' then Inr ''PSR2''
      else Inl (KeyError key))"

record leader =
  leader_sensor :: string
  leader_projection :: string
  dataSetSummary :: string
  radiometricData :: string
  leader_end :: int

definition leader_records :: "world \<Rightarrow> string \<Rightarrow> exn + leader" where
  "leader_records w led =
     (case struct_unpack_i (py_slice led 8 12) of
        Inl e \<Rightarrow> Inl e
      | Inr p1 \<Rightarrow>
         (let fileDescriptor = py_slice led 0 p1 in
          case sequence (map (\<lambda>(a, b). py_int (py_slice fileDescriptor a b))
                 [(180, 186), (186, 192), (192, 198), (198, 204), (204, 210), (210, 216),
                  (216, 222), (222, 228), (228, 234), (234, 240), (252, 258), (258, 264)]) of
            Inl e \<Rightarrow> Inl e
          | Inr ns \<Rightarrow>
             (let dss_n = ns ! 0; dss_l = ns ! 1; mpd_n = ns ! 2; mpd_l = ns ! 3;
                  ppd_n = ns ! 4; ppd_l = ns ! 5; adr_n = ns ! 6; adr_l = ns ! 7;
                  rdr_n = ns ! 8; rdr_l = ns ! 9; dqs_n = ns ! 10; dqs_l = ns ! 11
              in case PSR_sensor (py_slice fileDescriptor 48 51) of
                   Inl e \<Rightarrow> Inl e
                 | Inr sensor_name \<Rightarrow>
                    (let p0 = p1; p1 = p1 + dss_l * dss_n;
                         summary = py_slice led p0 p1;
                         p1' = (if mpd_n > 0 then p1 + mpd_l * mpd_n else p1);
                         proj = (if mpd_n > 0 then map_projection w (py_slice led p1 p1')
                                 else Inr WGS84)
                     in case proj of
                          Inl e \<Rightarrow> Inl e
                        | Inr wkt \<Rightarrow>
                           (let p1 = p1' + ppd_l * ppd_n;
                                p1 = p1 + adr_l * adr_n;
                                p0 = p1; p1 = p1 + rdr_l * rdr_n;
                                radiometric = py_slice led p0 p1;
                                p1 = p1 + dqs_l * dqs_n
                            in Inr \<lparr>leader_sensor = sensor_name, leader_projection = wkt,
                                    dataSetSummary = summary, radiometricData = radiometric,
                                    leader_end = p1\<rparr>)))))"

text \<open>
  The facility-related records that follow, of unknown number: each gives its length at
  its bytes 8 to 12, and the scan goes on while the offset lies before the end of the
  file. The loop need not end (a length of zero repeats the same record for ever).
\<close>

partial_function (option) facility_records ::
  "string \<Rightarrow> int \<Rightarrow> string list \<Rightarrow> (exn + string list) option" where
  "facility_records led p1 facilityRelatedData =
     (if p1 < int (length led) then
        (case struct_unpack_i (py_slice led (p1 + 8) (p1 + 12)) of
           Inl e \<Rightarrow> Some (Inl e)
         | Inr len \<Rightarrow>
            facility_records led (p1 + len)
              (facilityRelatedData @ [py_slice led p1 (p1 + len)]))
      else Some (Inr facilityRelatedData))"

declare facility_records.simps [code]

definition scanMetadata_PSR :: "world \<Rightarrow> string \<Rightarrow> rx \<Rightarrow> metadict outcome" where
  "scanMetadata_PSR w scene_path pattern =
     (case findfiles w scene_path pattern False of
        Inl e \<Rightarrow> Some (Inl e)
      | Inr files \<Rightarrow>
         (case files of
            [] \<Rightarrow> Some (Inl (IndexError ''list index out of range''))
          | led_filename # _ \<Rightarrow>
             (case getFileObj w scene_path led_filename of
                Inl e \<Rightarrow> Some (Inl e)
              | Inr led \<Rightarrow>
                 (case parseSummary w scene_path of
                    Inl e \<Rightarrow> Some (Inl e)
                  | Inr meta \<Rightarrow>
                     (case leader_records w led of
                        Inl e \<Rightarrow> Some (Inl e)
                      | Inr l \<Rightarrow>
                         (case facility_records led (leader_end l) [] of
                            None \<Rightarrow> None
                          | Some (Inl e) \<Rightarrow> Some (Inl e)
                          | Some (Inr facilityRelatedData) \<Rightarrow>
                             Some (PSR_fields w scene_path meta led_filename (leader_sensor l)
                                     (leader_projection l) (dataSetSummary l)
                                     (radiometricData l))))))))"

definition CEOS_PSR :: "world \<Rightarrow> string \<Rightarrow> ID outcome" where
  "CEOS_PSR w scene0 =
     (let scene_path = realpath w scene0 in
      case PSR_examine w scene_path CEOS_PSR_patterns of
        Inl e \<Rightarrow> Some (Inl e)
      | Inr (pattern, file_path) \<Rightarrow>
         (case scanMetadata_PSR w scene_path pattern of
            None \<Rightarrow> None
          | Some (Inl e) \<Rightarrow> Some (Inl e)
          | Some (Inr meta) \<Rightarrow> Some (Inr (ID_init scene_path file_path meta))))"

section \<open>Scene identification\<close>

text \<open>
  \<^verbatim>\<open>identify\<close> walks over \<^verbatim>\<open>ID.__subclasses__()\<close>, the handler classes in the order of
  their definition, and passes on the first object constructed. Its \<^verbatim>\<open>except\<close> clause
  names \<^verbatim>\<open>IOError\<close> and \<^verbatim>\<open>KeyError\<close>.
\<close>

definition ID_subclasses :: "world \<Rightarrow> (string \<Rightarrow> ID outcome) list" where
  "ID_subclasses w =
     [\<lambda>s. lift (CEOS_ERS w s), CEOS_PSR w, \<lambda>s. lift (ESA w s), \<lambda>s. lift (SAFE w s),
      \<lambda>s. lift (TSX w s)]"

fun caught :: "exn \<Rightarrow> bool" where
  "caught (IOError _) = True"
| "caught (KeyError _) = True"
| "caught _ = False"

definition not_supported :: exn where
  "not_supported = IOError ''data format not supported''"

fun identify_handlers :: "(string \<Rightarrow> 'a outcome) list \<Rightarrow> string \<Rightarrow> 'a outcome" where
  "identify_handlers [] scene_path = Some (Inl not_supported)"
| "identify_handlers (handler # rest) scene_path =
     (case handler scene_path of
        None \<Rightarrow> None
      | Some (Inr obj) \<Rightarrow> Some (Inr obj)
      | Some (Inl e) \<Rightarrow> if caught e then identify_handlers rest scene_path else Some (Inl e))"

definition identify :: "world \<Rightarrow> string \<Rightarrow> ID outcome" where
  "identify w scene_path = identify_handlers (ID_subclasses w) scene_path"

text \<open>
  \<^verbatim>\<open>identify_many\<close>: an element is a handler object already or a path; its \<^verbatim>\<open>except\<close>
  clause names \<^verbatim>\<open>IOError\<close> alone. The progress bar is left out.
\<close>

datatype scene_arg = Obj ID | Path string

fun is_IOError :: "exn \<Rightarrow> bool" where
  "is_IOError (IOError _) = True"
| "is_IOError _ = False"

fun identify_many_loop :: "(string \<Rightarrow> ID outcome) \<Rightarrow> ID list \<Rightarrow> scene_arg list \<Rightarrow> ID list outcome" where
  "identify_many_loop ident idlist [] = Some (Inr idlist)"
| "identify_many_loop ident idlist (Obj obj # scenes) =
     identify_many_loop ident (idlist @ [obj]) scenes"
| "identify_many_loop ident idlist (Path p # scenes) =
     (case ident p of
        None \<Rightarrow> None
      | Some (Inr obj) \<Rightarrow> identify_many_loop ident (idlist @ [obj]) scenes
      | Some (Inl e) \<Rightarrow>
          if is_IOError e then identify_many_loop ident idlist scenes else Some (Inl e))"

definition identify_many :: "world \<Rightarrow> scene_arg list \<Rightarrow> ID list outcome" where
  "identify_many w scenes = identify_many_loop (identify w) [] scenes"

section \<open>Timestamps: \<^verbatim>\<open>ID.parse_date\<close>\<close>

text \<open>
  \<^verbatim>\<open>time.strptime\<close> of Python 2.7 turns the format into a regular expression (class
  \<^verbatim>\<open>TimeRE\<close> of \<^verbatim>\<open>_strptime.py\<close>), compiled with \<^verbatim>\<open>re.IGNORECASE\<close>: a directive becomes a
  named group, a run of whitespace becomes \<^verbatim>\<open>\s+\<close>, any other character stands for
  itself. The directives are those of the five formats; the month names are those of the
  C locale.
\<close>

definition lit_ic :: "char \<Rightarrow> rx" where
  "lit_ic c = (if to_lower c = to_upper c then Lit c else Cls [to_lower c, to_upper c])"

definition month_abbr :: "string list" where
  "month_abbr = [''jan'', ''feb'', ''mar'', ''apr'', ''may'', ''jun'',
                 ''jul'', ''aug'', ''sep'', ''oct'', ''nov'', ''dec'']"

definition nonzero :: rx where
  "nonzero = Cls ''123456789''"

definition directive :: "char \<Rightarrow> rx option" where
  "directive c =
     (if c = CHR ''d'' then Some (Grp ''d'' (alts [
          Seq (Lit CHR ''3'') (Cls ''01''), Seq (Cls ''12'') digit,
          Seq (Lit CHR ''0'') nonzero, nonzero, Seq (Lit CHR '' '') nonzero]))
      else if c = CHR ''f'' then Some (Grp ''f'' (Rep 1 (Some 6) digit))
      else if c = CHR ''H'' then Some (Grp ''H'' (alts [
          Seq (Lit CHR ''2'') (Cls ''0123''), Seq (Cls ''01'') digit, digit]))
      else if c = CHR ''m'' then Some (Grp ''m'' (alts [
          Seq (Lit CHR ''1'') (Cls ''012''), Seq (Lit CHR ''0'') nonzero, nonzero]))
      else if c = CHR ''M'' then Some (Grp ''M'' (alts [Seq (Cls ''012345'') digit, digit]))
      else if c = CHR ''S'' then Some (Grp ''S'' (alts [
          Seq (Lit CHR ''6'') (Cls ''01''), Seq (Cls ''012345'') digit, digit]))
      else if c = CHR ''Y'' then Some (Grp ''Y'' (exactly 4 digit))
      else if c = CHR ''b'' then Some (Grp ''b'' (alts (map (\<lambda>m. seqs (map lit_ic m)) month_abbr)))
      else None)"

fun TimeRE_pattern :: "bool \<Rightarrow> string \<Rightarrow> rx list option" where
  "TimeRE_pattern in_space [] = Some []"
| "TimeRE_pattern in_space (c # cs) =
     (if c = CHR ''%'' then
        (case cs of
           [] \<Rightarrow> None
         | d # rest \<Rightarrow>
            (case directive d of
               None \<Rightarrow> None
             | Some r \<Rightarrow> map_option ((#) r) (TimeRE_pattern False rest)))
      else if c \<in> set whitespace then
        (if in_space then TimeRE_pattern True cs
         else map_option ((#) (Rep 1 None (Cls whitespace))) (TimeRE_pattern True cs))
      else map_option ((#) (lit_ic c)) (TimeRE_pattern False cs))"

text \<open>
  The fields of \<^verbatim>\<open>time.struct_time\<close> that the output format reads. The day of the week
  and the day of the year, which \<^verbatim>\<open>strptime\<close> derives from a date it has accepted, are
  left out.
\<close>

record struct_time =
  tm_year :: int
  tm_mon :: int
  tm_mday :: int
  tm_hour :: int
  tm_min :: int
  tm_sec :: int

definition is_leap :: "int \<Rightarrow> bool" where
  "is_leap y = (y mod 4 = 0 \<and> (y mod 100 \<noteq> 0 \<or> y mod 400 = 0))"

definition days_in_month :: "int \<Rightarrow> int \<Rightarrow> int" where
  "days_in_month y m =
     (if m = 2 then (if is_leap y then 29 else 28)
      else if m \<in> {4, 6, 9, 11} then 30 else 31)"

text \<open>\<^verbatim>\<open>datetime.date(year, month, day)\<close>, which \<^verbatim>\<open>strptime\<close> builds to find the day of the year.\<close>

definition check_date :: "int \<Rightarrow> int \<Rightarrow> int \<Rightarrow> exn + unit" where
  "check_date y m d =
     (if y < 1 \<or> y > 9999 then Inl (ValueError ''year is out of range'')
      else if m < 1 \<or> m > 12 then Inl (ValueError ''month must be in 1..12'')
      else if d < 1 \<or> d > days_in_month y m then Inl (ValueError ''day is out of range for month'')
      else Inr ())"

definition index_of :: "'a list \<Rightarrow> 'a \<Rightarrow> nat option" where
  "index_of xs x = (if x \<in> set xs then Some (length (takeWhile (\<lambda>y. y \<noteq> x) xs)) else None)"

definition group_int :: "match \<Rightarrow> string \<Rightarrow> int \<Rightarrow> exn + int" where
  "group_int found name dflt =
     (case group found name of None \<Rightarrow> Inr dflt | Some t \<Rightarrow> py_int t)"

definition group_month :: "match \<Rightarrow> exn + int" where
  "group_month found =
     (case group found ''b'' of
        Some t \<Rightarrow> (case index_of ([] # month_abbr) (map to_lower t) of
                     Some i \<Rightarrow> Inr (int i)
                   | None \<Rightarrow> Inl (ValueError ''list.index(x): x not in list''))
      | None \<Rightarrow> group_int found ''m'' 1)"

definition strptime :: "string \<Rightarrow> string \<Rightarrow> exn + struct_time" where
  "strptime data_string format =
     (case TimeRE_pattern False format of
        None \<Rightarrow> Inl (ValueError ''bad directive in format'')
      | Some rs \<Rightarrow>
         (case re_match (seqs rs) data_string of
            None \<Rightarrow> Inl (ValueError ''time data does not match format'')
          | Some found \<Rightarrow>
              if length data_string \<noteq> snd found then Inl (ValueError ''unconverted data remains'')
              else (case sequence [group_int found ''Y'' 1900, group_month found,
                                   group_int found ''d'' 1, group_int found ''H'' 0,
                                   group_int found ''M'' 0, group_int found ''S'' 0] of
                      Inl e \<Rightarrow> Inl e
                    | Inr v \<Rightarrow>
                       (let year = (if group found ''Y'' = None \<and> v ! 1 = 2 \<and> v ! 2 = 29
                                    then 1904 else v ! 0)
                        in case check_date year (v ! 1) (v ! 2) of
                             Inl e \<Rightarrow> Inl e
                           | Inr _ \<Rightarrow> Inr \<lparr>tm_year = year, tm_mon = v ! 1, tm_mday = v ! 2,
                                           tm_hour = v ! 3, tm_min = v ! 4, tm_sec = v ! 5\<rparr>))))"

text \<open>
  \<^verbatim>\<open>time.strftime('%Y%m%dT%H%M%S', t)\<close> of Python 2.7: a year below 1900 is read as a
  two-digit year when it is below 100 and refused otherwise, a month or day of 0 counts
  as 1, and a field out of range is refused.
\<close>

definition strftime :: "struct_time \<Rightarrow> exn + string" where
  "strftime t =
     (let y = tm_year t in
      if y < 1900 \<and> \<not> (0 \<le> y \<and> y \<le> 99) then Inl (ValueError ''year out of range'')
      else
       (let y = (if y \<ge> 1900 then y else if 69 \<le> y then y + 1900 else y + 2000);
            mon = (if tm_mon t = 0 then 1 else tm_mon t);
            mday = (if tm_mday t = 0 then 1 else tm_mday t)
        in if mon < 1 \<or> mon > 12 then Inl (ValueError ''month out of range'')
           else if mday < 1 \<or> mday > 31 then Inl (ValueError ''day of month out of range'')
           else if tm_hour t < 0 \<or> tm_hour t > 23 then Inl (ValueError ''hour out of range'')
           else if tm_min t < 0 \<or> tm_min t > 59 then Inl (ValueError ''minute out of range'')
           else if tm_sec t < 0 \<or> tm_sec t > 61 then Inl (ValueError ''seconds out of range'')
           else Inr (dec (nat y) @ pad2 (nat mon) @ pad2 (nat mday) @ ''T''
                     @ pad2 (nat (tm_hour t)) @ pad2 (nat (tm_min t)) @ pad2 (nat (tm_sec t)))))"

definition timeformats :: "string list" where
  "timeformats = [''%d-%b-%Y %H:%M:%S.%f'',
                  ''%Y%m%d%H%M%S%f'',
                  ''%Y-%m-%dT%H:%M:%S.%f'',
                  ''%Y-%m-%dT%H:%M:%S.%fZ'',
                  ''%Y%m%d %H:%M:%S.%f'']"

definition unknown_time_format :: exn where
  "unknown_time_format = ValueError ''unknown time format; check function ID.parse_date''"

definition convert :: "string \<Rightarrow> string \<Rightarrow> exn + string" where
  "convert x timeformat = (case strptime x timeformat of Inl e \<Rightarrow> Inl e | Inr t \<Rightarrow> strftime t)"

fun parse_date_loop :: "string \<Rightarrow> string list \<Rightarrow> exn + string" where
  "parse_date_loop x [] = Inl unknown_time_format"
| "parse_date_loop x (timeformat # rest) =
     (case convert x timeformat of
        Inr s \<Rightarrow> Inr s
      | Inl e \<Rightarrow>
         (case e of
            TypeError _ \<Rightarrow> parse_date_loop x rest
          | ValueError _ \<Rightarrow> parse_date_loop x rest
          | _ \<Rightarrow> Inl e))"

definition parse_date :: "string \<Rightarrow> exn + string" where
  "parse_date x = parse_date_loop x timeformats"

section \<open>The catalog: \<^verbatim>\<open>Archive\<close>\<close>

text \<open>
  A row of table \<^verbatim>\<open>data\<close>: the fourteen columns of \<^verbatim>\<open>self.lookup\<close> and the geometry
  column \<^verbatim>\<open>bbox\<close>. The state of the catalog is the list of its rows in the order of
  insertion; \<^verbatim>\<open>outname_base\<close> is the primary key.
\<close>

record row =
  col_sensor :: string
  col_orbit :: string
  col_acquisition_mode :: string
  col_start :: string
  col_stop :: string
  col_product :: string
  col_samples :: int
  col_lines :: int
  col_outname_base :: string
  col_scene :: string
  col_hh :: int
  col_vv :: int
  col_hv :: int
  col_vh :: int
  col_bbox :: string

definition get_colnames :: "string list" where
  "get_colnames = [''sensor'', ''orbit'', ''acquisition_mode'', ''start'', ''stop'', ''product'',
                   ''samples'', ''lines'', ''outname_base'', ''scene'', ''hh'', ''vv'', ''hv'',
                   ''vh'', ''bbox'']"

text \<open>\<^verbatim>\<open>Archive.__prepare_insertion\<close> for a handler object: the values of the columns.\<close>

definition flag :: "string \<Rightarrow> string list \<Rightarrow> int" where
  "flag attribute pols = (if attribute \<in> set pols then 1 else 0)"

definition prepare_insertion :: "world \<Rightarrow> ID \<Rightarrow> exn + row" where
  "prepare_insertion w obj =
     (let pols = map (map to_lower) (polarizations obj) in
      case bbox_wkt w obj of
        Inl e \<Rightarrow> Inl e
      | Inr geom \<Rightarrow>
          Inr \<lparr>col_sensor = sensor obj, col_orbit = orbit obj,
               col_acquisition_mode = acquisition_mode obj,
               col_start = start obj, col_stop = stop obj, col_product = product obj,
               col_samples = samples obj, col_lines = lines obj,
               col_outname_base = outname_base obj, col_scene = scene obj,
               col_hh = flag ''hh'' pols, col_vv = flag ''vv'' pols,
               col_hv = flag ''hv'' pols, col_vh = flag ''vh'' pols,
               col_bbox = geom\<rparr>)"

text \<open>
  \<^verbatim>\<open>INSERT INTO data\<close> followed by \<^verbatim>\<open>commit\<close>: the database refuses a second row with
  the same primary key.
\<close>

definition unique_failed :: string where
  "unique_failed = ''UNIQUE constraint failed: data.outname_base''"

definition execute_insert :: "row list \<Rightarrow> row \<Rightarrow> exn + row list" where
  "execute_insert db r =
     (if col_outname_base r \<in> set (map col_outname_base db)
      then Inl (IntegrityError unique_failed)
      else Inr (db @ [r]))"

text \<open>
  The loop of \<^verbatim>\<open>Archive.insert\<close> over the handler objects. The result is the rows after
  the loop, the lines printed, and the exception that ended the loop, if one did. Every
  insertion is committed on its own, so the rows inserted before an exception stay.
\<close>

definition already_registered :: "string \<Rightarrow> string" where
  "already_registered path =
     ''scene is already registered in the database at this location: '' @ path"

type_synonym inserted = "row list \<times> string list \<times> exn option"

fun insert_loop :: "world \<Rightarrow> bool \<Rightarrow> row list \<Rightarrow> string list \<Rightarrow> ID list \<Rightarrow> inserted" where
  "insert_loop w verbose db out [] = (db, out, None)"
| "insert_loop w verbose db out (obj # scenes) =
     (case prepare_insertion w obj of
        Inl e \<Rightarrow> (db, out, Some e)
      | Inr insertion \<Rightarrow>
         (case execute_insert db insertion of
            Inr db' \<Rightarrow> insert_loop w verbose db' out scenes
          | Inl e \<Rightarrow>
              if e = IntegrityError unique_failed then
                (case find (\<lambda>r. col_outname_base r = outname_base obj) db of
                   None \<Rightarrow> (db, out, Some (TypeError ''NoneType object has no attribute __getitem__''))
                 | Some r \<Rightarrow>
                     insert_loop w verbose db
                       (if verbose then out @ [already_registered (col_scene r)] else out)
                       scenes)
              else (db, out, Some e)))"





definition Archive_size :: "row list \<Rightarrow> nat" where
  "Archive_size db = length db"

text \<open>
  \<^verbatim>\<open>Archive.select\<close>. The entries of \<^verbatim>\<open>arg_format\<close> are kept in structured form; the
  text each stands for is, in the order of the constructors,
  \<^verbatim>\<open>key="value"\<close>, \<^verbatim>\<open>key IN ("v1", "v2")\<close>, \<^verbatim>\<open>start>=?\<close>, \<^verbatim>\<open>stop<=?\<close>, \<^verbatim>\<open>pol=1\<close> and
  \<^verbatim>\<open>st_intersects(GeomFromText(?, 4326), bbox) = 1\<close>, and the value bound to a
  \<^verbatim>\<open>?\<close> is carried along. A keyword argument is a string or an integer, a list or tuple
  of these, or a value of another type. The values of a list are joined with \<^verbatim>\<open>", "\<close>
  between two quotes, so an empty list stands for the one value \<^verbatim>\<open>""\<close>.
\<close>

datatype scalar = SStr string | SInt int

datatype argval = AScalar scalar | AList "scalar list" | AOther

datatype vector_arg = Vector string | NotVector

datatype cond =
    Equals string string
  | Member string "string list"
  | StartGE string
  | StopLE string
  | Flag string
  | Intersects string

fun py_str :: "scalar \<Rightarrow> string" where
  "py_str (SStr s) = s"
| "py_str (SInt i) = (if i < 0 then CHR ''-'' # dec (nat (- i)) else dec (nat i))"

definition arg_clause :: "(string \<times> argval) \<Rightarrow> cond list" where
  "arg_clause kv =
     (case snd kv of
        AScalar v \<Rightarrow> [Equals (fst kv) (py_str v)]
      | AList vs \<Rightarrow> [Member (fst kv) (if vs = [] then [[]] else map py_str vs)]
      | AOther \<Rightarrow> [])"

definition date_clause :: "(string \<Rightarrow> cond) \<Rightarrow> string option \<Rightarrow> cond list" where
  "date_clause mk date =
     (case date of
        None \<Rightarrow> []
      | Some d \<Rightarrow> if d \<noteq> [] \<and> re_search (timestamp_rx CHR ''T'') d \<noteq> None then [mk d] else [])"

definition pol_clauses :: "string list option \<Rightarrow> cond list" where
  "pol_clauses pols =
     (case pols of
        None \<Rightarrow> []
      | Some ps \<Rightarrow> map (\<lambda>pol. Flag (map to_lower pol))
                    (filter (\<lambda>pol. pol \<in> set [''HH'', ''VV'', ''HV'', ''VH'']) ps))"

definition vector_clause :: "vector_arg option \<Rightarrow> cond list" where
  "vector_clause v = (case v of Some (Vector site_geom) \<Rightarrow> [Intersects site_geom] | _ \<Rightarrow> [])"

definition arg_format ::
  "vector_arg option \<Rightarrow> string option \<Rightarrow> string option \<Rightarrow> string list option
   \<Rightarrow> (string \<times> argval) list \<Rightarrow> cond list" where
  "arg_format vectorobject mindate maxdate pols args =
     (let arg_valid = filter (\<lambda>kv. fst kv \<in> set get_colnames) args
      in concat (map arg_clause arg_valid)
         @ date_clause StartGE mindate @ date_clause StopLE maxdate
         @ pol_clauses pols @ vector_clause vectorobject)"

text \<open>
  What the database makes of a clause on a row. Text is compared byte by byte
  (\<open>str_le\<close>); a quoted value equals a text column when it is that text and an integer
  column when it is the decimal form of that integer; the geometry equals no text. This
  is SQLite for values without a double quote that do not spell a column name.
\<close>

datatype colval = TextV string | IntV int | BlobV

definition column :: "row \<Rightarrow> string \<Rightarrow> colval" where
  "column r key =
     (if key = ''sensor'' then TextV (col_sensor r)
      else if key = ''orbit'' then TextV (col_orbit r)
      else if key = ''acquisition_mode'' then TextV (col_acquisition_mode r)
      else if key = ''start'' then TextV (col_start r)
      else if key = ''stop'' then TextV (col_stop r)
      else if key = ''product'' then TextV (col_product r)
      else if key = ''samples'' then IntV (col_samples r)
      else if key = ''lines'' then IntV (col_lines r)
      else if key = ''outname_base'' then TextV (col_outname_base r)
      else if key = ''scene'' then TextV (col_scene r)
      else if key = ''hh'' then IntV (col_hh r)
      else if key = ''vv'' then IntV (col_vv r)
      else if key = ''hv'' then IntV (col_hv r)
      else if key = ''vh'' then IntV (col_vh r)
      else BlobV)"

fun sql_eq :: "colval \<Rightarrow> string \<Rightarrow> bool" where
  "sql_eq (TextV s) v = (s = v)"
| "sql_eq (IntV i) v = (py_str (SInt i) = v)"
| "sql_eq BlobV v = False"

fun str_le :: "string \<Rightarrow> string \<Rightarrow> bool" where
  "str_le [] t = True"
| "str_le (a # s) [] = False"
| "str_le (a # s) (b # t) = (if a = b then str_le s t else (of_char a :: nat) < of_char b)"

fun holds :: "world \<Rightarrow> row \<Rightarrow> cond \<Rightarrow> bool" where
  "holds w r (Equals key v) = sql_eq (column r key) v"
| "holds w r (Member key vs) = (\<exists>v \<in> set vs. sql_eq (column r key) v)"
| "holds w r (StartGE d) = str_le d (col_start r)"
| "holds w r (StopLE d) = str_le (col_stop r) d"
| "holds w r (Flag pol) = (column r pol = IntV 1)"
| "holds w r (Intersects site_geom) = st_intersects w site_geom (col_bbox r)"

text \<open>
  \<^verbatim>\<open>SELECT scene, outname_base FROM data WHERE\<close> followed by the clauses joined with
  \<^verbatim>\<open>AND\<close>. With no clause the statement ends after \<^verbatim>\<open>WHERE\<close> and the database refuses it.
\<close>

definition execute_select :: "world \<Rightarrow> row list \<Rightarrow> cond list \<Rightarrow> exn + (string \<times> string) list" where
  "execute_select w db clauses =
     (if clauses = [] then Inl (OperationalError ''incomplete input'')
      else Inr (map (\<lambda>r. (col_scene r, col_outname_base r))
                  (filter (\<lambda>r. \<forall>c \<in> set clauses. holds w r c) db)))"

text \<open>
  The value returned is a list of Python values: the source returns the first component
  of each fetched row.
\<close>

datatype pyval = PStr string | PTuple "pyval list"

definition Archive_select ::
  "world \<Rightarrow> row list \<Rightarrow> vector_arg option \<Rightarrow> string option \<Rightarrow> string option \<Rightarrow> string option
   \<Rightarrow> bool \<Rightarrow> string list option \<Rightarrow> (string \<times> argval) list \<Rightarrow> exn + pyval list" where
  "Archive_select w db vectorobject mindate maxdate processdir recursive pols args =
     (case execute_select w db (arg_format vectorobject mindate maxdate pols args) of
        Inl e \<Rightarrow> Inl e
      | Inr fetched \<Rightarrow>
         (let scenes = (case processdir of
                          None \<Rightarrow> fetched
                        | Some d \<Rightarrow>
                            if d = [] then fetched
                            else filter (\<lambda>x. length (processed w d (snd x) recursive) = 0) fetched)
          in Inr (map (\<lambda>x. PStr (fst x)) scenes)))"

section \<open>A small world to run the program in\<close>

text \<open>
  One zip archive of a TerraSAR-X scene, whose annotation is readable, and one zip archive
  of a PALSAR scene with the leader file \<open>demo_leader\<close>; every other path is an ordinary
  file that GDAL cannot open. The leader file has a file descriptor of 720 bytes, one
  data set summary record of 16 bytes and no other record but one facility-related record
  that declares 200 bytes, of which the file holds 16.
\<close>

definition tsx_name :: string where
  "tsx_name = ''TSX1_SAR__MGD_SE___SL_S_SRA_20110902T015248_20110902T015249''"

definition tsx_zip :: string where
  "tsx_zip = ''/data/tsx.zip''"

definition psr_zip :: string where
  "psr_zip = ''/data/psr.zip''"

definition demo_meta :: metadict where
  "demo_meta = \<lparr>sensor = ''TSX1'', projection = WGS84, orbit = ''A'', polarizations = [''HH''],
     acquisition_mode = ''SL'', start = ''20110902T015248'', stop = ''20110902T015249'',
     product = ''MGD'', spacing = (1, 1), samples = 100, lines = 200\<rparr>"

definition field6 :: "nat \<Rightarrow> string" where
  "field6 n = replicate (6 - length (dec n)) CHR '' '' @ dec n"

definition demo_descriptor :: string where
  "demo_descriptor =
     replicate 8 CHR '' '' @ [CHR 0x00, CHR 0x00, CHR 0x02, CHR 0xD0] @ replicate 36 CHR '' ''
     @ ''AL1'' @ replicate 129 CHR '' ''
     @ field6 1 @ field6 16 @ concat (replicate 8 (field6 0))
     @ replicate 12 CHR '' '' @ field6 0 @ field6 0 @ replicate 456 CHR '' ''"

definition demo_facility :: string where
  "demo_facility = replicate 8 CHR ''f'' @ [CHR 0x00, CHR 0x00, CHR 0x00, CHR 0xC8] @ ''tail''"

definition demo_leader :: string where
  "demo_leader = demo_descriptor @ replicate 16 CHR ''s'' @ demo_facility"

definition unreadable :: exn where
  "unreadable = IOError ''unreadable''"

definition demo_world :: world where
  "demo_world = \<lparr>
     realpath = (\<lambda>p. p),
     fs = (\<lambda>p. if p = tsx_zip then ZipFile [tsx_name @ ''/'', tsx_name @ ''/'' @ tsx_name @ ''.xml'']
               else if p = psr_zip then ZipFile [''LED-ALPSRP224031000-H1.1__A'']
               else RegularFile),
     finder = (\<lambda>d r n. []),
     open_read = (\<lambda>f. Inl unreadable),
     zip_read = (\<lambda>s f. if s = psr_zip then Inr demo_leader else Inl unreadable),
     tar_read = (\<lambda>s f. Inl unreadable),
     gdal_open = (\<lambda>f. Inl unreadable),
     ERS_fields = (\<lambda>g m s f. Inl (KeyError ''CEOS_MISSION_ID'')),
     ESA_fields = (\<lambda>g m s f. Inl (KeyError ''SPH_PASS'')),
     manifest_SAFE = (\<lambda>s f. Inl unreadable),
     annotation_TSX = (\<lambda>s f. Inr demo_meta),
     parseSummary = (\<lambda>s. Inr []),
     map_projection = (\<lambda>m. Inr WGS84),
     PSR_fields = (\<lambda>s m f sn pr d r. Inr (demo_meta\<lparr>sensor := sn, projection := pr\<rparr>)),
     bbox_wkt = (\<lambda>i. Inr ''POLYGON ((0 0, 0 1, 1 1, 1 0, 0 0))''),
     st_intersects = (\<lambda>a b. True),
     processed = (\<lambda>d n r. [])\<rparr>"

definition level0_scene :: string where
  "level0_scene = ''/data/SAR_IM__0PXASI19910729_203023_00000017A906_00129_00183_1771.E1''"

definition renamed_scene :: string where
  "renamed_scene = ''/data/xSAR_IMP_1PXASI19910729_203023_00000017A906_00129_00183_1771.E1''"

text \<open>The objects that a batch identifies, in the order of the batch.\<close>

definition successes :: "world \<Rightarrow> scene_arg list \<Rightarrow> ID list" where
  "successes w scenes =
     concat (map (\<lambda>s. case s of
                         Obj obj \<Rightarrow> [obj]
                       | Path p \<Rightarrow> (case identify w p of Some (Inr obj) \<Rightarrow> [obj] | _ \<Rightarrow> []))
                 scenes)"



text \<open>
  A catalog of three Sentinel-1 scenes, built by inserting them one after the other into
  an empty catalog: two of January 2020 and one of March 2020, all with the VV channel.
\<close>

definition s1_scene :: "string \<Rightarrow> string \<Rightarrow> string \<Rightarrow> string list \<Rightarrow> ID" where
  "s1_scene path t0 t1 pols =
     ID_init path path
       \<lparr>sensor = ''S1A'', projection = WGS84, orbit = ''A'', polarizations = pols,
        acquisition_mode = ''IW'', start = t0, stop = t1, product = ''GRD'',
        spacing = (10, 10), samples = 25000, lines = 16000\<rparr>"

definition january_a :: ID where
  "january_a = s1_scene ''/data/S1A_a.zip'' ''20200105T050000'' ''20200105T050025'' [''VV'', ''VH'']"

definition january_b :: ID where
  "january_b = s1_scene ''/data/S1A_b.zip'' ''20200117T050000'' ''20200117T050025'' [''VV'']"

definition march_c :: ID where
  "march_c = s1_scene ''/data/S1A_c.zip'' ''20200301T050000'' ''20200301T050025'' [''VV'', ''VH'']"

definition three_scenes :: "row list" where
  "three_scenes = fst (insert_loop demo_world False [] [] [january_a, january_b, march_c])"


section \<open>Properties of scene identification\<close>

subsection \<open>The handlers on the scenes of the small world\<close>

lemma tsx_handlers:
  "CEOS_ERS demo_world tsx_zip = Inl (IOError ''scene does not match CEOS_ERS naming convention'')"
  "CEOS_PSR demo_world tsx_zip
     = Some (Inl (IOError ''scene does not match CEOS_PSR naming convention''))"
  "ESA demo_world tsx_zip = Inl (IOError ''scene does not match ESA naming convention'')"
  "SAFE demo_world tsx_zip = Inl (IOError ''scene does not match SAFE naming convention'')"
  "TSX demo_world tsx_zip
     = Inr (ID_init tsx_zip (tsx_zip @ ''/'' @ tsx_name @ ''/'' @ tsx_name @ ''.xml'') demo_meta)"
  by code_simp+

lemma renamed_handlers:
  "CEOS_ERS demo_world renamed_scene = Inl no_group"
  "CEOS_PSR demo_world renamed_scene
     = Some (Inl (IOError ''scene does not match CEOS_PSR naming convention''))"
  "ESA demo_world renamed_scene = Inl no_group"
  "SAFE demo_world renamed_scene = Inl (IOError ''scene does not match SAFE naming convention'')"
  "TSX demo_world renamed_scene = Inl (IOError ''scene does not match TSX naming convention'')"
  by code_simp+

lemma level0_handlers:
  "CEOS_ERS demo_world level0_scene = Inl level0"
  "CEOS_PSR demo_world level0_scene
     = Some (Inl (IOError ''scene does not match CEOS_PSR naming convention''))"
  "ESA demo_world level0_scene = Inl level0"
  "SAFE demo_world level0_scene = Inl (IOError ''scene does not match SAFE naming convention'')"
  "TSX demo_world level0_scene = Inl (IOError ''scene does not match TSX naming convention'')"
  by code_simp+

lemma identify_tsx:
  "identify demo_world tsx_zip
     = Some (Inr (ID_init tsx_zip (tsx_zip @ ''/'' @ tsx_name @ ''/'' @ tsx_name @ ''.xml'') demo_meta))"
  by (simp add: tsx_handlers identify_def ID_subclasses_def lift_def)

lemma identify_renamed: "identify demo_world renamed_scene = Some (Inl no_group)"
  by (simp add: renamed_handlers identify_def ID_subclasses_def lift_def no_group_def)

lemma identify_level0: "identify demo_world level0_scene = Some (Inl not_supported)"
  by (simp add: level0_handlers identify_def ID_subclasses_def lift_def level0_def)

subsection \<open>The loop over the handlers\<close>







subsection \<open>Batches\<close>

lemma identify_many_loop_ok:
  assumes "\<forall>p. Path p \<in> set scenes \<longrightarrow>
             (\<exists>obj. identify w p = Some (Inr obj)) \<or> (\<exists>m. identify w p = Some (Inl (IOError m)))"
  shows "identify_many_loop (identify w) idlist scenes = Some (Inr (idlist @ successes w scenes))"
  using assms
proof (induction scenes arbitrary: idlist)
  case Nil
  then show ?case by (simp add: successes_def)
next
  case (Cons s scenes)
  have rest: "\<And>acc. identify_many_loop (identify w) acc scenes
                = Some (Inr (acc @ successes w scenes))"
    using Cons by simp
  show ?case
  proof (cases s)
    case (Obj obj)
    then show ?thesis using rest by (simp add: successes_def)
  next
    case (Path p)
    then have "(\<exists>obj. identify w p = Some (Inr obj)) \<or> (\<exists>m. identify w p = Some (Inl (IOError m)))"
      using Cons.prems by simp
    then show ?thesis using Path rest by (auto simp: successes_def)
  qed
qed

lemma identify_many_loop_abort:
  assumes "\<forall>q. Path q \<in> set pre \<longrightarrow>
             (\<exists>obj. identify w q = Some (Inr obj)) \<or> (\<exists>m. identify w q = Some (Inl (IOError m)))"
    and "identify w p = Some (Inl e)" and "\<not> is_IOError e"
  shows "identify_many_loop (identify w) idlist (pre @ Path p # post) = Some (Inl e)"
  using assms
proof (induction pre arbitrary: idlist)
  case Nil
  then show ?case by simp
next
  case (Cons s pre)
  have rest: "\<And>acc. identify_many_loop (identify w) acc (pre @ Path p # post) = Some (Inl e)"
    using Cons by simp
  show ?case
  proof (cases s)
    case (Obj obj)
    then show ?thesis using rest by simp
  next
    case (Path q)
    then have "(\<exists>obj. identify w q = Some (Inr obj)) \<or> (\<exists>m. identify w q = Some (Inl (IOError m)))"
      using Cons.prems by simp
    then show ?thesis using Path rest by auto
  qed
qed

text \<open>
  Claim C9, as the code has it. \<^verbatim>\<open>identify_many\<close> goes through the batch in order and
  skips a path on which \<^verbatim>\<open>identify\<close> raises \<^verbatim>\<open>IOError\<close>: when every path is identified
  or raises \<^verbatim>\<open>IOError\<close>, the result is the list of the objects identified, in the order
  of the batch. An exception of another class on some path, after paths that were
  identified or skipped, ends the call with that exception, and no list is returned.
\<close>

theorem identify_many_skips_IOError_only:
  "((\<forall>p. Path p \<in> set scenes \<longrightarrow>
        (\<exists>obj. identify w p = Some (Inr obj)) \<or> (\<exists>m. identify w p = Some (Inl (IOError m))))
    \<longrightarrow> identify_many w scenes = Some (Inr (successes w scenes)))
   \<and> (scenes = pre @ Path p # post
      \<and> (\<forall>q. Path q \<in> set pre \<longrightarrow>
            (\<exists>obj. identify w q = Some (Inr obj)) \<or> (\<exists>m. identify w q = Some (Inl (IOError m))))
      \<and> identify w p = Some (Inl e) \<and> \<not> is_IOError e
    \<longrightarrow> identify_many w scenes = Some (Inl e))"
  unfolding identify_many_def
  using identify_many_loop_ok [of scenes w "[]"] identify_many_loop_abort [of pre w p e "[]" post]
  by simp

text \<open>
  The theorem on two batches of the small world: an unsupported file on either side of
  the TerraSAR-X archive is skipped, and a renamed ESA file in the middle ends the batch.
\<close>

theorem identify_many_skips_IOError_only_witness:
  "identify_many demo_world [Path level0_scene, Path tsx_zip, Path level0_scene]
     = Some (Inr [ID_init tsx_zip (tsx_zip @ ''/'' @ tsx_name @ ''/'' @ tsx_name @ ''.xml'') demo_meta])
   \<and> identify_many demo_world [Path tsx_zip, Path renamed_scene, Path tsx_zip] = Some (Inl no_group)"
  using identify_many_skips_IOError_only
          [of "[Path level0_scene, Path tsx_zip, Path level0_scene]" demo_world "[]" level0_scene
              "[]" no_group]
        identify_many_skips_IOError_only
          [of "[Path tsx_zip, Path renamed_scene, Path tsx_zip]" demo_world "[Path tsx_zip]"
              renamed_scene "[Path tsx_zip]" no_group]
  by (auto simp: identify_level0 identify_tsx identify_renamed successes_def not_supported_def
      no_group_def)

text \<open>
  Claim C9 as stated fails on the second batch: the identification of the renamed file
  fails, the file is not skipped, and the object of the archive before it is lost with
  the batch.
\<close>

theorem identify_many_counterexample:
  "identify demo_world tsx_zip
     = Some (Inr (ID_init tsx_zip (tsx_zip @ ''/'' @ tsx_name @ ''/'' @ tsx_name @ ''.xml'') demo_meta))
   \<and> identify demo_world renamed_scene = Some (Inl no_group)
   \<and> identify_many demo_world [Path tsx_zip, Path renamed_scene, Path tsx_zip] = Some (Inl no_group)"
  by (simp add: identify_many_def identify_tsx identify_renamed no_group_def)

subsection \<open>Products of level 0\<close>




subsection \<open>The representative file\<close>




section \<open>Properties of the output base name\<close>

lemma length_ljust4: "length (ljust4 s) = max 4 (length s)"
  by (simp add: ljust4_def)

lemma outname_base_eq:
  "outname_base r = ljust4 (sensor r) @ ''_'' @ ljust4 (acquisition_mode r) @ ''_''
                    @ orbit r @ ''_'' @ start r"
  by (simp add: outname_base_def)

text \<open>
  Claim C7, as the code has it. \<^verbatim>\<open>outname_base\<close> is the sensor and the acquisition mode,
  each filled up with underscores to four characters when it is shorter, the orbit and the
  start time, joined by underscores. Records that agree on the four fields after padding
  agree on the name. The converse holds for records whose padded sensors, padded modes and
  orbits have the same lengths, as they do when sensor and mode have at most four
  characters and the orbit is one character.
\<close>

theorem outname_base_padded_fields:
  "outname_base r = ljust4 (sensor r) @ ''_'' @ ljust4 (acquisition_mode r) @ ''_''
                    @ orbit r @ ''_'' @ start r
   \<and> ljust4 (sensor r) = sensor r @ replicate (4 - length (sensor r)) CHR ''_''
   \<and> ljust4 (acquisition_mode r)
       = acquisition_mode r @ replicate (4 - length (acquisition_mode r)) CHR ''_''
   \<and> (ljust4 (sensor r) = ljust4 (sensor r')
       \<and> ljust4 (acquisition_mode r) = ljust4 (acquisition_mode r')
       \<and> orbit r = orbit r' \<and> start r = start r'
      \<longrightarrow> outname_base r = outname_base r')
   \<and> (length (ljust4 (sensor r)) = length (ljust4 (sensor r'))
       \<and> length (ljust4 (acquisition_mode r)) = length (ljust4 (acquisition_mode r'))
       \<and> length (orbit r) = length (orbit r')
      \<longrightarrow> (outname_base r = outname_base r'
            \<longleftrightarrow> ljust4 (sensor r) = ljust4 (sensor r')
                \<and> ljust4 (acquisition_mode r) = ljust4 (acquisition_mode r')
                \<and> orbit r = orbit r' \<and> start r = start r'))"
proof -
  have inj: "(a @ ''_'' @ b @ ''_'' @ c @ ''_'' @ d = a' @ ''_'' @ b' @ ''_'' @ c' @ ''_'' @ d')
               = (a = a' \<and> b = b' \<and> c = c' \<and> d = d')"
    if "length a = length a'" "length b = length b'" "length c = length c'"
    for a b c d a' b' c' d' :: string
    using that by simp
  show ?thesis
    using inj [of "ljust4 (sensor r)" "ljust4 (sensor r')" "ljust4 (acquisition_mode r)"
                  "ljust4 (acquisition_mode r')" "orbit r" "orbit r'" "start r" "start r'"]
    by (simp add: outname_base_eq) (simp add: ljust4_def)
qed

text \<open>
  The theorem at the two January scenes of the catalog: same sensor, mode and orbit,
  different start times, different names.
\<close>

theorem outname_base_padded_fields_witness:
  "outname_base january_a = ''S1A__IW___A_20200105T050000''
   \<and> outname_base january_a \<noteq> outname_base january_b"
proof -
  have f: "sensor january_a = ''S1A''" "sensor january_b = ''S1A''"
    "acquisition_mode january_a = ''IW''" "acquisition_mode january_b = ''IW''"
    "orbit january_a = ''A''" "orbit january_b = ''A''"
    "start january_a = ''20200105T050000''" "start january_b = ''20200117T050000''"
    by (simp_all add: january_a_def january_b_def s1_scene_def ID_init_def)
  have l: "ljust4 ''S1A'' = ''S1A_''" "ljust4 ''IW'' = ''IW__''"
    by code_simp+
  show ?thesis
    using outname_base_padded_fields [of january_a january_b]
    by (auto simp: f l)
qed

text \<open>
  Claim C7 as stated fails for fields that hold underscores and differ in length: the two
  records below differ in sensor and in mode after padding and have the same name.
\<close>

theorem outname_base_counterexample:
  "outname_base (january_a\<lparr>sensor := ''AAAA'', acquisition_mode := ''BBBB_CCCC''\<rparr>)
     = outname_base (january_a\<lparr>sensor := ''AAAA_BBBB'', acquisition_mode := ''CCCC''\<rparr>)
   \<and> ljust4 ''AAAA'' \<noteq> ljust4 ''AAAA_BBBB''"
  by (simp add: outname_base_def ljust4_def january_a_def s1_scene_def ID_init_def)

section \<open>Properties of the catalog\<close>

subsection \<open>Queries\<close>

text \<open>
  Claim C10. A call of \<^verbatim>\<open>select\<close> with no vector object, no date that holds a timestamp,
  no channel among the four known and no keyword argument that names a column leaves no
  clause for the query, and the database raises an \<^verbatim>\<open>OperationalError\<close>; a call that
  returns has at least one clause.
\<close>

theorem select_needs_a_clause:
  "(vectorobject = None
    \<and> (\<forall>d. mindate = Some d \<longrightarrow> re_search (timestamp_rx CHR ''T'') d = None)
    \<and> (\<forall>d. maxdate = Some d \<longrightarrow> re_search (timestamp_rx CHR ''T'') d = None)
    \<and> (\<forall>ps. pols = Some ps \<longrightarrow> set ps \<inter> {''HH'', ''VV'', ''HV'', ''VH''} = {})
    \<and> (\<forall>kv \<in> set args. fst kv \<notin> set get_colnames)
    \<longrightarrow> (\<exists>msg. Archive_select w db vectorobject mindate maxdate processdir recursive pols args
                 = Inl (OperationalError msg)))
   \<and> ((\<exists>res. Archive_select w db vectorobject mindate maxdate processdir recursive pols args
                 = Inr res)
      \<longrightarrow> arg_format vectorobject mindate maxdate pols args \<noteq> [])"
proof -
  have "arg_format vectorobject mindate maxdate pols args = []"
    if "vectorobject = None"
      and "\<forall>d. mindate = Some d \<longrightarrow> re_search (timestamp_rx CHR ''T'') d = None"
      and "\<forall>d. maxdate = Some d \<longrightarrow> re_search (timestamp_rx CHR ''T'') d = None"
      and "\<forall>ps. pols = Some ps \<longrightarrow> set ps \<inter> {''HH'', ''VV'', ''HV'', ''VH''} = {}"
      and "\<forall>kv \<in> set args. fst kv \<notin> set get_colnames"
  proof -
    have "filter (\<lambda>kv. fst kv \<in> set get_colnames) args = []"
      using that(5) by (simp add: filter_empty_conv)
    moreover have "date_clause StartGE mindate = []" "date_clause StopLE maxdate = []"
      using that(2,3) by (auto simp: date_clause_def split: option.splits)
    moreover have "pol_clauses pols = []"
      using that(4) by (auto simp: pol_clauses_def filter_empty_conv split: option.splits)
    moreover have "vector_clause vectorobject = []"
      using that(1) by (simp add: vector_clause_def)
    ultimately show ?thesis by (simp add: arg_format_def)
  qed
  then show ?thesis
    by (auto simp: Archive_select_def execute_select_def split: sum.splits if_splits)
qed

text \<open>
  The theorem at a call with a date that holds no timestamp, a channel in lower case and
  a keyword that names no column.
\<close>

theorem select_needs_a_clause_witness:
  "Archive_select demo_world three_scenes None (Some ''January 2020'') None None False
     (Some [''vv'']) [(''mission'', AScalar (SStr ''S1A''))] = Inl (OperationalError ''incomplete input'')"
proof -
  have "re_search (timestamp_rx CHR ''T'') ''January 2020'' = None"
    by code_simp
  then show ?thesis
    using select_needs_a_clause [of None "Some ''January 2020''" None "Some [''vv'']"
            "[(''mission'', AScalar (SStr ''S1A''))]" demo_world three_scenes None False]
    by (auto simp: get_colnames_def Archive_select_def execute_select_def split: sum.splits if_splits)
qed











subsection \<open>Insertion\<close>

lemma prepare_insertion_key:
  "prepare_insertion w obj = Inr r \<Longrightarrow> col_outname_base r = outname_base obj"
  by (auto simp: prepare_insertion_def Let_def split: sum.splits)








section \<open>Properties of the leader file scan\<close>

lemma py_slice_inside:
  "0 \<le> a \<Longrightarrow> a \<le> b \<Longrightarrow> b \<le> int (length s) \<Longrightarrow>
   py_slice s a b = take (nat (b - a)) (drop (nat a) s)"
  by (auto simp: py_slice_def py_index_def Let_def min_def nat_diff_distrib)







end
